theory Spec2Isabelle
  imports Complex_Main "HOL-Library.Sublist"
begin

section \<open>JavaScript values used by the bot\<close>

text \<open>
  Strings are lists of code units. The model is exact for code units below 256 (Latin-1):
  the tables below give the white space that \<open>\s\<close> and \<open>trim\<close> recognise there and
  the letters that \<open>toLowerCase\<close> changes there.
\<close>

definition LF :: char where
  "LF = CHR 0x0A"


definition isSpace :: "char \<Rightarrow> bool" where
  "isSpace c = (c \<in> set [CHR 0x09, CHR 0x0A, CHR 0x0B, CHR 0x0C, CHR 0x0D, CHR 0x20, CHR 0xA0])"

definition isLineTerminator :: "char \<Rightarrow> bool" where
  "isLineTerminator c = (c = CHR 0x0A \<or> c = CHR 0x0D)"

definition upperChars :: string where
  "upperChars = ''ABCDEFGHIJKLMNOPQRSTUVWXYZ'' @
     [CHR 0xC0, CHR 0xC1, CHR 0xC2, CHR 0xC3, CHR 0xC4, CHR 0xC5, CHR 0xC6, CHR 0xC7,
      CHR 0xC8, CHR 0xC9, CHR 0xCA, CHR 0xCB, CHR 0xCC, CHR 0xCD, CHR 0xCE, CHR 0xCF,
      CHR 0xD0, CHR 0xD1, CHR 0xD2, CHR 0xD3, CHR 0xD4, CHR 0xD5, CHR 0xD6,
      CHR 0xD8, CHR 0xD9, CHR 0xDA, CHR 0xDB, CHR 0xDC, CHR 0xDD, CHR 0xDE]"

definition lowerChars :: string where
  "lowerChars = ''abcdefghijklmnopqrstuvwxyz'' @
     [CHR 0xE0, CHR 0xE1, CHR 0xE2, CHR 0xE3, CHR 0xE4, CHR 0xE5, CHR 0xE6, CHR 0xE7,
      CHR 0xE8, CHR 0xE9, CHR 0xEA, CHR 0xEB, CHR 0xEC, CHR 0xED, CHR 0xEE, CHR 0xEF,
      CHR 0xF0, CHR 0xF1, CHR 0xF2, CHR 0xF3, CHR 0xF4, CHR 0xF5, CHR 0xF6,
      CHR 0xF8, CHR 0xF9, CHR 0xFA, CHR 0xFB, CHR 0xFC, CHR 0xFD, CHR 0xFE]"

definition toLowerChar :: "char \<Rightarrow> char" where
  "toLowerChar c = (case map_of (zip upperChars lowerChars) c of Some l \<Rightarrow> l | None \<Rightarrow> c)"

definition toLowerCase :: "string \<Rightarrow> string" where
  "toLowerCase s = map toLowerChar s"

text \<open>\<open>s.includes(t)\<close>: \<open>t\<close> occurs in \<open>s\<close> as a contiguous run.\<close>

fun includes_str :: "string \<Rightarrow> string \<Rightarrow> bool" where
  "includes_str [] t = (t = [])"
| "includes_str (c # s) t = (prefix t (c # s) \<or> includes_str s t)"

text \<open>\<open>s.trim()\<close>: white space and line terminators are removed at both ends.\<close>

definition trim :: "string \<Rightarrow> string" where
  "trim s = rev (dropWhile isSpace (rev (dropWhile isSpace s)))"

text \<open>\<open>xs.slice(-n)\<close> for a positive \<open>n\<close>: the last \<open>n\<close> elements, all of them when there are fewer.\<close>

definition sliceLast :: "nat \<Rightarrow> 'a list \<Rightarrow> 'a list" where
  "sliceLast n xs = drop (length xs - n) xs"

text \<open>
  Numbers that the program computes with are exact reals; \<open>NaN\<close> is what arithmetic on
  \<open>undefined\<close> yields. Rounding and overflow of IEEE doubles are outside the model.
\<close>

datatype num = Num real | NaN

fun add :: "num \<Rightarrow> num \<Rightarrow> num" where
  "add (Num a) (Num b) = Num (a + b)"
| "add _ _ = NaN"

fun mul :: "num \<Rightarrow> num \<Rightarrow> num" where
  "mul (Num a) (Num b) = Num (a * b)"
| "mul _ _ = NaN"

fun floor_num :: "num \<Rightarrow> num" where
  "floor_num (Num a) = Num (of_int \<lfloor>a\<rfloor>)"
| "floor_num NaN = NaN"

record Vec3 =
  pos_x :: num
  pos_y :: num
  pos_z :: num

record Rotation =
  yaw :: num
  pitch :: num

text \<open>An inventory item; \<open>name\<close> is \<open>None\<close> when the packet's item has no name property.\<close>

record Item =
  name :: "string option"
  count :: nat

datatype GamePhase = early | mid | late | endgame


section \<open>State store, core variant (src/unnamed/part\_000, class BotState)\<close>

text \<open>The outcome recorded with an action: the check mark, the cross, or \<open>'ERROR'\<close>.\<close>

datatype Outcome = Tick | Cross | ERROR

record HistoryEntry =
  h_timestamp :: string
  h_action :: string
  h_result :: Outcome
  h_details :: string
  h_phase :: GamePhase
  h_position :: Vec3

text \<open>
  The fields the program reads or writes after construction (\<open>nearbyBlocks\<close>,
  \<open>nearbyEntities\<close> and \<open>achievements\<close> are never touched). \<open>lastUpdate\<close> is a clock reading
  in milliseconds.
\<close>

record BotState =
  position :: Vec3
  rotation :: Rotation
  health :: real
  hunger :: real
  inventory :: "Item list"
  currentGoal :: string
  gamePhase :: GamePhase
  actionHistory :: "HistoryEntry list"
  lastUpdate :: nat
  isDay :: bool
  consecutiveErrors :: nat
  entityId :: nat

definition BotState_init :: "nat \<Rightarrow> BotState" where
  "BotState_init now =
     \<lparr> position = \<lparr> pos_x = Num 0, pos_y = Num 0, pos_z = Num 0 \<rparr>,
       rotation = \<lparr> yaw = Num 0, pitch = Num 0 \<rparr>,
       health = 20, hunger = 20, inventory = [], currentGoal = ''survive'',
       gamePhase = early, actionHistory = [], lastUpdate = now, isDay = True,
       consecutiveErrors = 0, entityId = 0 \<rparr>"

text \<open>
  The argument of \<open>update(data)\<close>: the properties the callers pass, each present or absent.
  \<open>Object.assign\<close> copies the present ones; the event \<open>stateChanged\<close> has no listener.
\<close>

record Partial =
  p_position :: "Vec3 option"
  p_rotation :: "Rotation option"
  p_health :: "real option"
  p_inventory :: "Item list option"
  p_gamePhase :: "GamePhase option"

definition no_data :: Partial where
  "no_data = \<lparr> p_position = None, p_rotation = None, p_health = None,
               p_inventory = None, p_gamePhase = None \<rparr>"

definition update :: "nat \<Rightarrow> Partial \<Rightarrow> BotState \<Rightarrow> BotState" where
  "update now data st =
     st \<lparr> position := (case p_position data of Some v \<Rightarrow> v | None \<Rightarrow> position st),
          rotation := (case p_rotation data of Some v \<Rightarrow> v | None \<Rightarrow> rotation st),
          health := (case p_health data of Some v \<Rightarrow> v | None \<Rightarrow> health st),
          inventory := (case p_inventory data of Some v \<Rightarrow> v | None \<Rightarrow> inventory st),
          gamePhase := (case p_gamePhase data of Some v \<Rightarrow> v | None \<Rightarrow> gamePhase st),
          lastUpdate := now \<rparr>"

definition addToHistory :: "string \<Rightarrow> string \<Rightarrow> Outcome \<Rightarrow> string \<Rightarrow> BotState \<Rightarrow> BotState" where
  "addToHistory ts act res details st =
     (let h = actionHistory st @
            [\<lparr> h_timestamp = ts, h_action = act, h_result = res, h_details = details,
               h_phase = gamePhase st, h_position = position st \<rparr>]
      in st \<lparr> actionHistory := (if length h > 100 then sliceLast 100 h else h) \<rparr>)"

text \<open>\<open>i.name?.toLowerCase() || ''\<close>\<close>

definition itemNames :: "Item list \<Rightarrow> string list" where
  "itemNames its = map (\<lambda>i. case name i of None \<Rightarrow> [] | Some n \<Rightarrow> toLowerCase n) its"

definition determineGamePhase :: "BotState \<Rightarrow> GamePhase" where
  "determineGamePhase st =
     (let items = itemNames (inventory st) in
      if list_ex (\<lambda>i. includes_str i ''diamond'' \<or> includes_str i ''netherite'') items then late
      else if list_ex (\<lambda>i. includes_str i ''iron'') items then mid
      else early)"

text \<open>
  The handler of \<open>inventory_content\<close>: the argument object is built first, so
  \<open>determineGamePhase()\<close> reads the inventory that is still stored; \<open>pkt.items || []\<close>.
\<close>

definition on_inventory_content :: "nat \<Rightarrow> Item list option \<Rightarrow> BotState \<Rightarrow> BotState" where
  "on_inventory_content now items st =
     update now (no_data \<lparr> p_inventory := Some (case items of Some xs \<Rightarrow> xs | None \<Rightarrow> []),
                          p_gamePhase := Some (determineGamePhase st) \<rparr>) st"


section \<open>State store, broad variant (src/bot.js, class BotState)\<close>

record HistoryEntry_b =
  hb_timestamp :: nat
  hb_action :: string
  hb_result :: string
  hb_phase :: GamePhase

record BotState_b =
  position_b :: Vec3
  rotation_b :: Rotation
  health_b :: real
  hunger_b :: real
  inventory_b :: "Item list"
  currentGoal_b :: "string option"
  gamePhase_b :: GamePhase
  actionHistory_b :: "HistoryEntry_b list"
  lastUpdate_b :: nat

definition addToHistory_b :: "nat \<Rightarrow> string \<Rightarrow> string \<Rightarrow> BotState_b \<Rightarrow> BotState_b" where
  "addToHistory_b now act res st =
     (let h = actionHistory_b st @
            [\<lparr> hb_timestamp = now, hb_action = act, hb_result = res, hb_phase = gamePhase_b st \<rparr>]
      in st \<lparr> actionHistory_b := (if length h > 50 then sliceLast 50 h else h) \<rparr>)"

definition determineGamePhase_b :: "BotState_b \<Rightarrow> GamePhase" where
  "determineGamePhase_b st =
     (let items = itemNames (inventory_b st) in
      if list_ex (\<lambda>i. includes_str i ''elytra'' \<or> includes_str i ''dragon'') items then endgame
      else if list_ex (\<lambda>i. includes_str i ''diamond'' \<or> includes_str i ''netherite'') items then late
      else if list_ex (\<lambda>i. includes_str i ''iron'') items then mid
      else early)"

definition BotState_b_init :: "nat \<Rightarrow> BotState_b" where
  "BotState_b_init now =
     \<lparr> position_b = \<lparr> pos_x = Num 0, pos_y = Num 0, pos_z = Num 0 \<rparr>,
       rotation_b = \<lparr> yaw = Num 0, pitch = Num 0 \<rparr>,
       health_b = 20, hunger_b = 20, inventory_b = [], currentGoal_b = None,
       gamePhase_b = early, actionHistory_b = [], lastUpdate_b = now \<rparr>"


section \<open>Decision engine (src/unnamed/part\_000, class GeminiController)\<close>

record Plan =
  action :: string
  reasoning :: string

text \<open>
  A pattern in lower-case ASCII matches at the start of \<open>s\<close> under the flag \<open>i\<close>: letters
  compare without regard to case.
\<close>

definition ciPrefix :: "string \<Rightarrow> string \<Rightarrow> bool" where
  "ciPrefix pat s = (length pat \<le> length s \<and> toLowerCase (take (length pat) s) = pat)"

text \<open>The leftmost start position at which \<open>f\<close> matches, as \<open>String.prototype.match\<close> searches.\<close>

fun firstMatch :: "(string \<Rightarrow> 'a option) \<Rightarrow> string \<Rightarrow> 'a option" where
  "firstMatch f [] = f []"
| "firstMatch f (c # s) = (case f (c # s) of Some m \<Rightarrow> Some m | None \<Rightarrow> firstMatch f s)"

text \<open>
  \<open>(.+?)(?:\n|$)\<close> at a fixed start: \<open>.\<close> stops at a line terminator, so the only run
  that can be followed by a line feed or the end of the input is the whole run.
\<close>

definition captureFrom :: "string \<Rightarrow> string option" where
  "captureFrom s =
     (let run = takeWhile (\<lambda>c. \<not> isLineTerminator c) s; rest = drop (length run) s
      in if run \<noteq> [] \<and> (rest = [] \<or> hd rest = LF) then Some run else None)"

text \<open>
  \<open>\s*\<close> is greedy: it first takes all \<open>k\<close> white-space characters and gives them back
  one at a time while the rest of the pattern fails.
\<close>

fun captureAfter :: "nat \<Rightarrow> string \<Rightarrow> string option" where
  "captureAfter 0 r = captureFrom r"
| "captureAfter (Suc k) r =
     (case captureFrom (drop (Suc k) r) of Some cap \<Rightarrow> Some cap | None \<Rightarrow> captureAfter k r)"

text \<open>\<open>/ACTION:\s*(.+?)(?:\n|$)/i\<close> at a fixed start; the result is the capture group.\<close>

definition matchActionAt :: "string \<Rightarrow> string option" where
  "matchActionAt s =
     (if ciPrefix ''action:'' s
      then (let r = drop 7 s in captureAfter (length (takeWhile isSpace r)) r)
      else None)"

text \<open>
  \<open>\s+[^\n]+\<close> after the verb \<open>v\<close>: at least one white-space character, then the longest
  run without a line feed, which must not be empty. The result is the whole match.
\<close>

fun argsAfter :: "nat \<Rightarrow> string \<Rightarrow> string \<Rightarrow> string option" where
  "argsAfter 0 v r = None"
| "argsAfter (Suc k) v r =
     (let rest = takeWhile (\<lambda>c. c \<noteq> LF) (drop (Suc k) r)
      in if rest \<noteq> [] then Some (v @ take (Suc k) r @ rest) else argsAfter k v r)"

definition matchCommandAt :: "string \<Rightarrow> string \<Rightarrow> string option" where
  "matchCommandAt cmd s =
     (if ciPrefix cmd s
      then (let r = drop (length cmd) s
            in argsAfter (length (takeWhile isSpace r)) (take (length cmd) s) r)
      else None)"

definition commands :: "string list" where
  "commands = [''move'', ''mine'', ''explore'', ''attack'', ''chat'', ''wait'', ''jumpmove'']"

fun scanCommands :: "string list \<Rightarrow> string \<Rightarrow> string option" where
  "scanCommands [] response = None"
| "scanCommands (cmd # cmds) response =
     (case firstMatch (matchCommandAt cmd) response of
        Some m \<Rightarrow> Some m
      | None \<Rightarrow> scanCommands cmds response)"

text \<open>\<open>s.split(sep)[0]\<close>: the text before the first occurrence of \<open>sep\<close>, all of it when there is none.\<close>

fun beforeFirst :: "string \<Rightarrow> string \<Rightarrow> string" where
  "beforeFirst sep [] = []"
| "beforeFirst sep (c # s) = (if prefix sep (c # s) then [] else c # beforeFirst sep s)"

definition parseAction :: "string \<Rightarrow> Plan" where
  "parseAction response =
     (case firstMatch matchActionAt response of
        Some cap \<Rightarrow> \<lparr> action = trim cap, reasoning = trim (beforeFirst ''ACTION:'' response) \<rparr>
      | None \<Rightarrow>
          (case scanCommands commands response of
             Some m \<Rightarrow> \<lparr> action = trim m, reasoning = ''Extracted from response'' \<rparr>
           | None \<Rightarrow> \<lparr> action = ''explore'',
                       reasoning = ''Could not parse action, defaulting to explore'' \<rparr>))"

definition safeFallback :: "BotState \<Rightarrow> Plan" where
  "safeFallback st =
     (if health st < 10 then \<lparr> action = ''wait'', reasoning = ''Low health, being cautious'' \<rparr>
      else if gamePhase st = early
      then \<lparr> action = ''mine wood'', reasoning = ''Need basic resources'' \<rparr>
      else \<lparr> action = ''explore'', reasoning = ''Safe exploration'' \<rparr>)"

definition maxConsecutiveErrors :: nat where
  "maxConsecutiveErrors = 5"

text \<open>
  The trace log keeps the reply and the plan of each entry (its context and timestamp are
  not read by the program).
\<close>

record GeminiController =
  conversationHistory :: "(string \<times> Plan) list"

text \<open>
  \<open>think(state)\<close>. The settled value of \<open>await this.callGemini(prompt)\<close> is the input
  \<open>reply\<close>: \<open>Inr text\<close> when the call returns, \<open>Inl message\<close> when it throws. The call is the
  first statement of the \<open>try\<close> block on every path; the context and the prompt built
  before it only feed the call.
\<close>

definition think ::
  "string + string \<Rightarrow> GeminiController \<times> BotState \<Rightarrow> Plan \<times> GeminiController \<times> BotState" where
  "think reply c =
     (case c of (ai, st) \<Rightarrow>
       (case reply of
          Inr response \<Rightarrow>
            (let act = parseAction response;
                 h = conversationHistory ai @ [(response, act)]
             in (act, ai \<lparr> conversationHistory := (if length h > 20 then sliceLast 20 h else h) \<rparr>, st))
        | Inl err \<Rightarrow>
            (let st' = st \<lparr> consecutiveErrors := consecutiveErrors st + 1 \<rparr>
             in if consecutiveErrors st' > maxConsecutiveErrors
                then (safeFallback st', ai, st')
                else (\<lparr> action = ''wait'', reasoning = ''Error recovery'' \<rparr>, ai, st'))))"


section \<open>Action executor, core variant (src/unnamed/part\_000, class ActionExecutor)\<close>

text \<open>
  What is written to the session capability. The constant fields of each packet (\<open>mode\<close>,
  \<open>ridden_runtime_id\<close>, \<open>tick\<close>, \<open>action\<close>, \<open>face\<close>, \<open>action_id\<close>, the chat envelope) are left out.
  \<open>MovePlayer runtime_id position yaw pitch head_yaw on_ground\<close>,
  \<open>PlayerAction runtime_entity_id position\<close>, \<open>Animate runtime_entity_id\<close>, \<open>TextChat message\<close>.
\<close>

datatype Packet =
    MovePlayer nat Vec3 num num num bool
  | PlayerAction nat Vec3
  | Animate nat
  | TextChat string

record ActionExecutor =
  client :: "Packet list"
  state :: BotState
  isBusy :: bool

text \<open>
  The value a handler call yields: an object with \<open>success\<close> and \<open>message\<close>, or the empty
  object that \<open>Object()\<close> returns.
\<close>

datatype ExecutionResult = Result bool string | PlainObject

fun success :: "ExecutionResult \<Rightarrow> bool" where
  "success (Result ok msg) = ok"
| "success PlainObject = False"

text \<open>\<open>result.message\<close> as the \<open>details\<close> argument, whose default \<open>''\<close> replaces \<open>undefined\<close>.\<close>

fun details_of :: "ExecutionResult \<Rightarrow> string" where
  "details_of (Result ok msg) = msg"
| "details_of PlainObject = []"

datatype Settled = Resolved ExecutionResult | Rejected string

text \<open>
  An asynchronous handler is the list of its synchronous stretches, each followed by a
  \<open>sleep\<close>, and the value it returns after the last one. Session events and the
  periodic position sync, which the program may run while a handler sleeps, are not
  interleaved with the stretches.
\<close>

type_synonym Segment = "ActionExecutor \<Rightarrow> ActionExecutor"

type_synonym Handler = "Segment list \<times> ExecutionResult"

fun runSegments :: "Segment list \<Rightarrow> ActionExecutor \<Rightarrow> ActionExecutor" where
  "runSegments [] ex = ex"
| "runSegments (f # fs) ex = runSegments fs (f ex)"

text \<open>
  What the program does not decide: the two pseudo-random draws of \<open>explore\<close> (already
  multiplied and floored), the winner of \<open>Promise.race\<close> (\<open>Some k\<close>: the timer fires
  during the sleep after the \<open>k\<close>-th stretch; \<open>None\<close>: the handler returns first), and the
  clock reading stored with the history entry. After a timeout the later stretches of the
  handler still run in the program, once \<open>execute\<close> has returned; they are not part of the
  state that this call returns.
\<close>

record Env =
  rand_dir :: nat
  rand_dist :: nat
  timeoutAfter :: "nat option"
  clock :: string

definition race :: "nat option \<Rightarrow> Handler \<Rightarrow> ActionExecutor \<Rightarrow> Settled \<times> ActionExecutor" where
  "race cutoff h ex =
     (case h of (segs, r) \<Rightarrow>
       (case cutoff of
          None \<Rightarrow> (Resolved r, runSegments segs ex)
        | Some k \<Rightarrow>
            if 1 \<le> k \<and> k \<le> length segs
            then (Rejected ''Action timeout'', runSegments (take k segs) ex)
            else (Resolved r, runSegments segs ex)))"

text \<open>Decimal rendering of an integer in a template literal.\<close>

fun digits :: "nat \<Rightarrow> string" where
  "digits n = (if n < 10 then [''0123456789'' ! n] else digits (n div 10) @ [''0123456789'' ! (n mod 10)])"

definition show_int :: "int \<Rightarrow> string" where
  "show_int i = (if i < 0 then ''-'' @ digits (nat (- i)) else digits (nat i))"

text \<open>A string or \<open>undefined\<close> in a template literal.\<close>

fun show_opt :: "string option \<Rightarrow> string" where
  "show_opt None = ''undefined''"
| "show_opt (Some s) = s"

definition digitValue :: "char \<Rightarrow> nat" where
  "digitValue c = (case map_of (zip ''0123456789abcdefABCDEF''
        [0, 1, 2, 3, 4, 5, 6, 7, 8, 9, 10, 11, 12, 13, 14, 15, 10, 11, 12, 13, 14, 15]) c of
      Some v \<Rightarrow> v | None \<Rightarrow> 16)"

text \<open>
  \<open>parseInt(s)\<close> without a radix: leading white space, a sign, \<open>0x\<close> for base 16, then the
  longest run of digits; \<open>None\<close> is \<open>NaN\<close>. \<open>parseInt(undefined)\<close> is \<open>NaN\<close>.
\<close>

definition parseInt :: "string option \<Rightarrow> int option" where
  "parseInt a =
     (case a of
        None \<Rightarrow> None
      | Some s \<Rightarrow>
          (let s0 = dropWhile isSpace s;
               neg = prefix ''-'' s0;
               s1 = (if prefix ''-'' s0 \<or> prefix ''+'' s0 then tl s0 else s0);
               hex = (prefix ''0x'' s1 \<or> prefix ''0X'' s1);
               radix = (if hex then 16 else 10);
               ds = takeWhile (\<lambda>c. digitValue c < radix) (if hex then drop 2 s1 else s1);
               n = int (foldl (\<lambda>acc c. acc * radix + digitValue c) 0 ds)
           in if ds = [] then None else Some (if neg then - n else n)))"

text \<open>\<open>parseInt(a) || d\<close>: \<open>NaN\<close> and \<open>0\<close> are falsy.\<close>

definition parseIntOr :: "string option \<Rightarrow> int \<Rightarrow> int" where
  "parseIntOr a d = (case parseInt a of None \<Rightarrow> d | Some n \<Rightarrow> if n = 0 then d else n)"

text \<open>
  \<open>directions[direction]\<close>. The key is in lower case when it comes from \<open>performAction\<close>, and
  among the property names an object literal inherits only \<open>constructor\<close> and \<open>__proto__\<close>
  are; their values are truthy and have no \<open>x\<close>, \<open>z\<close> or \<open>yaw\<close>. The key \<open>undefined\<close>
  (a missing argument) is no property.
\<close>

datatype DirEntry = Dir real real real | InheritedDir | NoDir

definition directions :: "string option \<Rightarrow> DirEntry" where
  "directions direction =
     (if direction = Some ''north'' then Dir 0 (- 1) 180
      else if direction = Some ''south'' then Dir 0 1 0
      else if direction = Some ''east'' then Dir 1 0 270
      else if direction = Some ''west'' then Dir (- 1) 0 90
      else if direction = Some ''constructor'' \<or> direction = Some ''__proto__'' then InheritedDir
      else NoDir)"

fun dir_x :: "DirEntry \<Rightarrow> num" where
  "dir_x (Dir dx dz dyaw) = Num dx"
| "dir_x _ = NaN"

fun dir_z :: "DirEntry \<Rightarrow> num" where
  "dir_z (Dir dx dz dyaw) = Num dz"
| "dir_z _ = NaN"

fun dir_yaw :: "DirEntry \<Rightarrow> num" where
  "dir_yaw (Dir dx dz dyaw) = Num dyaw"
| "dir_yaw _ = NaN"

text \<open>One iteration of the loop of \<open>move\<close>, up to its \<open>sleep(50)\<close>.\<close>

definition moveStep :: "DirEntry \<Rightarrow> num \<Rightarrow> Segment" where
  "moveStep dir stepSize ex =
     (let st = state ex;
          newPos = \<lparr> pos_x = add (pos_x (position st)) (mul (dir_x dir) stepSize),
                     pos_y = pos_y (position st),
                     pos_z = add (pos_z (position st)) (mul (dir_z dir) stepSize) \<rparr>
      in ex \<lparr> client := client ex @ [MovePlayer (entityId st) newPos (dir_yaw dir) (Num 0) (dir_yaw dir) True],
              state := st \<lparr> position := newPos, rotation := \<lparr> yaw = dir_yaw dir, pitch = Num 0 \<rparr> \<rparr> \<rparr>)"

text \<open>
  \<open>move(direction, blocks)\<close>; \<open>blocks\<close> is an integer at every call. The loop runs \<open>steps\<close>
  times when \<open>steps\<close> is positive and not at all otherwise, so \<open>stepSize\<close> is only used
  with a positive divisor.
\<close>

definition move :: "string option \<Rightarrow> int \<Rightarrow> Handler" where
  "move direction blocks =
     (case directions direction of
        NoDir \<Rightarrow> ([], Result False (''Invalid direction: '' @ show_opt direction))
      | dir \<Rightarrow>
          (let steps = min (blocks * 4) 40;
               stepSize = Num (real_of_int blocks / real_of_int steps)
           in (replicate (nat steps) (moveStep dir stepSize),
               Result True (''Moved '' @ show_opt direction @ '' '' @ show_int blocks @ '' blocks''))))"

definition jumpStep :: "DirEntry \<Rightarrow> real \<Rightarrow> bool \<Rightarrow> Segment" where
  "jumpStep dir dy ground ex =
     (let st = state ex;
          p = \<lparr> pos_x = add (pos_x (position st)) (mul (dir_x dir) (Num 0.5)),
                pos_y = add (pos_y (position st)) (Num dy),
                pos_z = add (pos_z (position st)) (mul (dir_z dir) (Num 0.5)) \<rparr>
      in ex \<lparr> client := client ex @ [MovePlayer (entityId st) p (dir_yaw dir) (Num 0) (dir_yaw dir) ground],
              state := st \<lparr> position := p \<rparr> \<rparr>)"

definition jumpMove :: "string option \<Rightarrow> int \<Rightarrow> Handler" where
  "jumpMove direction blocks =
     (case directions direction of
        NoDir \<Rightarrow> ([], Result False (''Invalid direction: '' @ show_opt direction))
      | dir \<Rightarrow>
          (concat (replicate (nat blocks) [jumpStep dir 1 False, jumpStep dir (- 1) True]),
           Result True (''Jump-moved '' @ show_opt direction @ '' '' @ show_int blocks @ '' blocks'')))"

definition mineLook :: "bool \<Rightarrow> Segment" where
  "mineLook lookDown ex =
     (let p = (if lookDown then Num 90 else Num 0);
          st = (state ex) \<lparr> rotation := (rotation (state ex)) \<lparr> pitch := p \<rparr> \<rparr>
      in ex \<lparr> client := client ex @ [MovePlayer (entityId st) (position st) (yaw (rotation st)) p
                                        (yaw (rotation st)) True],
              state := st \<rparr>)"

definition mineStart :: "bool \<Rightarrow> Segment" where
  "mineStart lookDown ex =
     (let st = state ex;
          fx = floor_num (pos_x (position st));
          fy = floor_num (pos_y (position st));
          fz = floor_num (pos_z (position st));
          blockPos = (if lookDown
                      then \<lparr> pos_x = fx, pos_y = add fy (Num (- 1)), pos_z = fz \<rparr>
                      else \<lparr> pos_x = fx, pos_y = fy,
                             pos_z = add fz (if yaw (rotation st) = Num 0 then Num 1 else Num (- 1)) \<rparr>)
      in ex \<lparr> client := client ex @ [PlayerAction (entityId st) blockPos] \<rparr>)"

definition swing :: Segment where
  "swing ex = ex \<lparr> client := client ex @ [Animate (entityId (state ex))] \<rparr>"

definition mine :: "string \<Rightarrow> Handler" where
  "mine target =
     (let lookDown = (includes_str target ''down'' \<or> includes_str target ''stone''
                      \<or> includes_str target ''dirt'')
      in (mineLook lookDown # mineStart lookDown # replicate 5 swing,
          Result True (''Mining '' @ target)))"

definition direction_names :: "string list" where
  "direction_names = [''north'', ''south'', ''east'', ''west'']"

definition explore :: "Env \<Rightarrow> Handler" where
  "explore env = move (Some (direction_names ! (rand_dir env mod 4))) (3 + int (rand_dist env mod 7))"

definition attack :: Handler where
  "attack = ([swing], Result True ''Attacking nearby target'')"

definition chat :: "string \<Rightarrow> Handler" where
  "chat msg =
     ([\<lambda>ex. ex \<lparr> client := client ex @ [TextChat (if msg = [] then ''Hello!'' else msg)] \<rparr>],
      Result True (''Sent: '' @ msg))"

definition wait :: Handler where
  "wait = ([\<lambda>ex. ex], Result True ''Waiting and observing'')"

text \<open>\<open>s.split(/\s+/)\<close>: the pieces between maximal runs of white space.\<close>

fun splitWs_from :: "bool \<Rightarrow> string \<Rightarrow> string \<Rightarrow> string list" where
  "splitWs_from sep cur [] = [cur]"
| "splitWs_from sep cur (c # s) =
     (if isSpace c
      then (if sep then splitWs_from True [] s else cur # splitWs_from True [] s)
      else splitWs_from False (cur @ [c]) s)"

definition splitWs :: "string \<Rightarrow> string list" where
  "splitWs s = splitWs_from False [] s"

text \<open>\<open>xs.join(' ')\<close>\<close>

fun join_space :: "string list \<Rightarrow> string" where
  "join_space [] = []"
| "join_space [a] = a"
| "join_space (a # b # rest) = a @ '' '' @ join_space (b # rest)"

text \<open>\<open>args[i]\<close>, \<open>undefined\<close> past the end.\<close>

definition arg :: "string list \<Rightarrow> nat \<Rightarrow> string option" where
  "arg args i = (if i < length args then Some (args ! i) else None)"

text \<open>
  \<open>actions[command]\<close> for a command in lower case: one of the seven own properties, a
  property inherited from \<open>Object.prototype\<close> (\<open>constructor\<close> is the function \<open>Object\<close>,
  \<open>__proto__\<close> is an object that cannot be called), or \<open>undefined\<close>.
\<close>

datatype ActionEntry = OwnAction Handler | ObjectFunction | PrototypeObject | NoAction

definition actions :: "Env \<Rightarrow> string list \<Rightarrow> string \<Rightarrow> ActionEntry" where
  "actions env args command =
     (if command = ''move'' then OwnAction (move (arg args 0) (parseIntOr (arg args 1) 5))
      else if command = ''jumpmove'' then OwnAction (jumpMove (arg args 0) (parseIntOr (arg args 1) 5))
      else if command = ''mine'' then OwnAction (mine (join_space args))
      else if command = ''explore'' then OwnAction (explore env)
      else if command = ''attack'' then OwnAction attack
      else if command = ''chat'' then OwnAction (chat (join_space args))
      else if command = ''wait'' then OwnAction wait
      else if command = ''constructor'' then ObjectFunction
      else if command = ''__proto__'' then PrototypeObject
      else NoAction)"

text \<open>The leading command token and the arguments of an action string.\<close>

definition commandOf :: "string \<Rightarrow> string" where
  "commandOf actionString = hd (splitWs (trim (toLowerCase actionString)))"

definition argsOf :: "string \<Rightarrow> string list" where
  "argsOf actionString = tl (splitWs (trim (toLowerCase actionString)))"

definition performAction :: "Env \<Rightarrow> string \<Rightarrow> ActionExecutor \<Rightarrow> Settled \<times> ActionExecutor" where
  "performAction env actionString ex =
     (let command = commandOf actionString; args = argsOf actionString
      in case actions env args command of
           NoAction \<Rightarrow> (Resolved (Result False (''Unknown command: '' @ command)), ex)
         | ObjectFunction \<Rightarrow> (Resolved PlainObject, ex)
         | PrototypeObject \<Rightarrow> (Rejected ''actionFn is not a function'', ex)
         | OwnAction h \<Rightarrow> race (timeoutAfter env) h ex)"

text \<open>
  The part of \<open>execute\<close> after \<open>await this.performAction(plan.action)\<close> has settled: the
  rest of the \<open>try\<close> block or the \<open>catch\<close> block, then \<open>finally\<close>.
\<close>

definition execute_settled ::
  "string \<Rightarrow> Plan \<Rightarrow> Settled \<times> ActionExecutor \<Rightarrow> ExecutionResult \<times> ActionExecutor" where
  "execute_settled ts plan sx =
     (case sx of
        (Resolved result, ex) \<Rightarrow>
          (result,
           ex \<lparr> state := addToHistory ts (action plan) (if success result then Tick else Cross)
                            (details_of result) ((state ex) \<lparr> consecutiveErrors := 0 \<rparr>),
                isBusy := False \<rparr>)
      | (Rejected msg, ex) \<Rightarrow>
          (Result False msg,
           ex \<lparr> state := addToHistory ts (action plan) ERROR msg (state ex), isBusy := False \<rparr>))"

text \<open>
  \<open>execute(plan)\<close> for a plan object whose \<open>action\<close> is a string, as every plan of the
  decision engine is. The template literal of the \<open>console.log\<close> between
  \<open>this.isBusy = true\<close> and \<open>try\<close> then yields a string and throws nothing.
\<close>

definition execute :: "Env \<Rightarrow> Plan \<Rightarrow> ActionExecutor \<Rightarrow> ExecutionResult \<times> ActionExecutor" where
  "execute env plan ex =
     (if isBusy ex then (Result False ''Busy'', ex)
      else execute_settled (clock env) plan
             (performAction env (action plan) (ex \<lparr> isBusy := True \<rparr>)))"

text \<open>
  The argument of \<open>execute\<close> as a value of the language. \<open>POST /command\<close> takes \<open>action\<close>
  from the JSON body, refuses the falsy values and calls
  \<open>execute({ action, reasoning: 'Manual command' })\<close> with every other one. \<open>Text s\<close> is a
  string. \<open>NonString shown\<close> is a value that is no string and that a template literal
  renders as \<open>shown\<close>: a number, \<open>true\<close>, an array, an object with the inherited
  \<open>toString\<close>. \<open>Unprintable\<close> is an object whose own \<open>toString\<close> and \<open>valueOf\<close> are no
  functions, such as \<open>{"toString": 1, "valueOf": 1}\<close>: its conversion to a string throws a
  TypeError. \<open>NullPlan\<close> is the call \<open>execute(null)\<close>, which the program itself never makes.
\<close>

datatype ActionValue = Text string | NonString string | Unprintable

datatype PlanValue = PlanObject ActionValue string | NullPlan

text \<open>
  The template literal \<open>${plan.action}\<close> of the \<open>console.log\<close>: the text, or \<open>Inl\<close> the message
  of the TypeError.
\<close>

fun render :: "PlanValue \<Rightarrow> string + string" where
  "render NullPlan = Inl ''Cannot read properties of null''"
| "render (PlanObject Unprintable why) = Inl ''Cannot convert object to primitive value''"
| "render (PlanObject (NonString shown) why) = Inr shown"
| "render (PlanObject (Text s) why) = Inr s"

text \<open>
  \<open>performAction(plan.action)\<close>: \<open>actionString.toLowerCase()\<close> throws when the value is no
  string, inside the \<open>async\<close> function, so the promise is rejected.
\<close>

fun performAction_value :: "Env \<Rightarrow> PlanValue \<Rightarrow> ActionExecutor \<Rightarrow> Settled \<times> ActionExecutor" where
  "performAction_value env (PlanObject (Text s) why) ex = performAction env s ex"
| "performAction_value env plan ex = (Rejected ''actionString.toLowerCase is not a function'', ex)"

text \<open>
  \<open>execute(plan)\<close> for every argument. The result is the settled value of the promise that
  the \<open>async\<close> function returns: \<open>Inr\<close> the object it returns, or \<open>Inl\<close> the message of the
  error it throws. The \<open>console.log\<close> stands after \<open>this.isBusy = true\<close> and before \<open>try\<close>;
  when its template literal throws, neither \<open>catch\<close> nor \<open>finally\<close> runs. Of its plan
  \<open>execute_settled\<close> reads the action only, for the history entry, where a value that is no
  string is kept as the text a template literal renders it as.
\<close>

definition execute_value ::
  "Env \<Rightarrow> PlanValue \<Rightarrow> ActionExecutor \<Rightarrow> (string + ExecutionResult) \<times> ActionExecutor" where
  "execute_value env plan ex =
     (if isBusy ex then (Inr (Result False ''Busy''), ex)
      else
        (let ex1 = ex \<lparr> isBusy := True \<rparr>
         in case render plan of
              Inl msg \<Rightarrow> (Inl msg, ex1)
            | Inr shown \<Rightarrow>
                (case execute_settled (clock env) \<lparr> action = shown, reasoning = [] \<rparr>
                        (performAction_value env plan ex1) of
                   (result, ex2) \<Rightarrow> (Inr result, ex2))))"


section \<open>Action executor, broad variant (src/bot.js, class ActionExecutor)\<close>

record Plan_b =
  action_b :: string
  reasoning_b :: string
  priority_b :: "string option"
  estimatedTime_b :: "nat option"

text \<open>\<open>'p\<close> is the type of the queued packets; \<open>actionQueue\<close> is never used.\<close>

record 'p ActionExecutor_b =
  client_b :: "'p list"
  state_b :: BotState_b
  currentAction :: "Plan_b option"

definition handlers_b :: "string list" where
  "handlers_b = [''mine'', ''craft'', ''move'', ''explore'', ''combat'', ''build'', ''eat'', ''sleep'']"

text \<open>\<open>s.split(' ')\<close>: the pieces between single spaces.\<close>

fun splitSpace_from :: "string \<Rightarrow> string \<Rightarrow> string list" where
  "splitSpace_from cur [] = [cur]"
| "splitSpace_from cur (c # s) =
     (if c = CHR '' '' then cur # splitSpace_from [] s else splitSpace_from (cur @ [c]) s)"

definition commandOf_b :: "string \<Rightarrow> string" where
  "commandOf_b actionString = hd (splitSpace_from [] (toLowerCase actionString))"

definition argsOf_b :: "string \<Rightarrow> string list" where
  "argsOf_b actionString = tl (splitSpace_from [] (toLowerCase actionString))"

text \<open>
  \<open>performAction(actionString, timeout)\<close>. The bodies of the eight handlers and their race
  against \<open>this.timeout(timeout)\<close> are the parameter \<open>run\<close>, applied to the handler's name,
  the arguments and the timeout.
\<close>

definition performAction_b ::
  "(string \<Rightarrow> string list \<Rightarrow> nat option \<Rightarrow> 'p ActionExecutor_b \<Rightarrow> Settled \<times> 'p ActionExecutor_b)
   \<Rightarrow> string \<Rightarrow> nat option \<Rightarrow> 'p ActionExecutor_b \<Rightarrow> Settled \<times> 'p ActionExecutor_b" where
  "performAction_b run actionString timeout ex =
     (let command = commandOf_b actionString; args = argsOf_b actionString
      in if command \<in> set handlers_b then run command args timeout ex
         else if command = ''constructor'' then (Resolved PlainObject, ex)
         else if command = ''__proto__'' then (Rejected ''actionFn is not a function'', ex)
         else (Resolved (Result False (''Unknown action: '' @ command)), ex))"

definition execute_b ::
  "(string \<Rightarrow> string list \<Rightarrow> nat option \<Rightarrow> 'p ActionExecutor_b \<Rightarrow> Settled \<times> 'p ActionExecutor_b)
   \<Rightarrow> nat \<Rightarrow> Plan_b \<Rightarrow> 'p ActionExecutor_b \<Rightarrow> ExecutionResult \<times> 'p ActionExecutor_b" where
  "execute_b run now plan ex =
     (case performAction_b run (action_b plan) (estimatedTime_b plan)
             (ex \<lparr> currentAction := Some plan \<rparr>) of
        (Resolved result, ex') \<Rightarrow>
          (result,
           ex' \<lparr> state_b := addToHistory_b now (action_b plan)
                              (if success result then ''success'' else ''failed'') (state_b ex'),
                 currentAction := None \<rparr>)
      | (Rejected msg, ex') \<Rightarrow>
          (Result False msg,
           ex' \<lparr> state_b := addToHistory_b now (action_b plan) ''error'' (state_b ex'),
                 currentAction := None \<rparr>))"


section \<open>Notions used to state the properties\<close>

text \<open>The text \<open>s\<close> contains \<open>pat\<close>, letters compared without regard to case.\<close>

fun ciIncludes :: "string \<Rightarrow> string \<Rightarrow> bool" where
  "ciIncludes pat [] = ciPrefix pat []"
| "ciIncludes pat (c # s) = (ciPrefix pat (c # s) \<or> ciIncludes pat s)"



text \<open>The executors as their constructors leave them.\<close>

definition ActionExecutor_init :: "nat \<Rightarrow> ActionExecutor" where
  "ActionExecutor_init now = \<lparr> client = [], state = BotState_init now, isBusy = False \<rparr>"

definition ActionExecutor_b_init :: "nat \<Rightarrow> 'p ActionExecutor_b" where
  "ActionExecutor_b_init now = \<lparr> client_b = [], state_b = BotState_b_init now, currentAction = None \<rparr>"


text \<open>Some item of the inventory has a name that, in lower case, contains \<open>m\<close>.\<close>

definition hasItemNamed :: "string \<Rightarrow> Item list \<Rightarrow> bool" where
  "hasItemNamed m its = list_ex (\<lambda>i. case name i of None \<Rightarrow> False
                                      | Some n \<Rightarrow> includes_str (toLowerCase n) m) its"

text \<open>A sequence of \<open>addToHistory\<close> calls, each with its clock reading and arguments.\<close>

type_synonym HistoryCall = "string \<times> string \<times> Outcome \<times> string"

definition entryOf :: "BotState \<Rightarrow> HistoryCall \<Rightarrow> HistoryEntry" where
  "entryOf st c =
     (case c of (ts, act, res, details) \<Rightarrow>
        \<lparr> h_timestamp = ts, h_action = act, h_result = res, h_details = details,
          h_phase = gamePhase st, h_position = position st \<rparr>)"

fun addToHistory_calls :: "HistoryCall list \<Rightarrow> BotState \<Rightarrow> BotState" where
  "addToHistory_calls [] st = st"
| "addToHistory_calls (c # cs) st =
     (case c of (ts, act, res, details) \<Rightarrow>
        addToHistory_calls cs (addToHistory ts act res details st))"

type_synonym HistoryCall_b = "nat \<times> string \<times> string"

definition entryOf_b :: "BotState_b \<Rightarrow> HistoryCall_b \<Rightarrow> HistoryEntry_b" where
  "entryOf_b st c =
     (case c of (now, act, res) \<Rightarrow>
        \<lparr> hb_timestamp = now, hb_action = act, hb_result = res, hb_phase = gamePhase_b st \<rparr>)"

fun addToHistory_b_calls :: "HistoryCall_b list \<Rightarrow> BotState_b \<Rightarrow> BotState_b" where
  "addToHistory_b_calls [] st = st"
| "addToHistory_b_calls (c # cs) st =
     (case c of (now, act, res) \<Rightarrow> addToHistory_b_calls cs (addToHistory_b now act res st))"


section \<open>Properties of the state store\<close>

lemma list_ex_itemNames:
  "m \<noteq> [] \<Longrightarrow> list_ex (\<lambda>i. includes_str i m) (itemNames its) = hasItemNamed m its"
  by (induction its) (auto simp: itemNames_def hasItemNamed_def split: option.splits)

lemma list_ex_disj:
  "list_ex (\<lambda>i. P i \<or> Q i) xs = (list_ex P xs \<or> list_ex Q xs)"
  by (auto simp: list_ex_iff)

lemma determineGamePhase_eq:
  "determineGamePhase st =
     (if hasItemNamed ''diamond'' (inventory st) \<or> hasItemNamed ''netherite'' (inventory st) then late
      else if hasItemNamed ''iron'' (inventory st) then mid else early)"
  by (simp add: determineGamePhase_def Let_def list_ex_disj list_ex_itemNames)

lemma determineGamePhase_b_eq:
  "determineGamePhase_b sb =
     (if hasItemNamed ''elytra'' (inventory_b sb) \<or> hasItemNamed ''dragon'' (inventory_b sb) then endgame
      else if hasItemNamed ''diamond'' (inventory_b sb) \<or> hasItemNamed ''netherite'' (inventory_b sb) then late
      else if hasItemNamed ''iron'' (inventory_b sb) then mid else early)"
  by (simp add: determineGamePhase_b_def Let_def list_ex_disj list_ex_itemNames)

lemma itemNames_map_name:
  "itemNames its = map (\<lambda>n. case n of None \<Rightarrow> [] | Some s \<Rightarrow> toLowerCase s) (map name its)"
  by (simp add: itemNames_def)

lemma determineGamePhase_names:
  "map name (inventory st) = map name (inventory st') \<Longrightarrow> determineGamePhase st = determineGamePhase st'"
  by (simp add: determineGamePhase_def itemNames_map_name)

lemma determineGamePhase_b_names:
  "map name (inventory_b sb) = map name (inventory_b sb') \<Longrightarrow>
   determineGamePhase_b sb = determineGamePhase_b sb'"
  by (simp add: determineGamePhase_b_def itemNames_map_name)

text \<open>
  C5, as amended. Both variants compute the phase from the item names alone, compared in
  lower case. The broad variant (src/bot.js) checks the endgame markers elytra and dragon
  first, then the late markers diamond and netherite, then the mid marker iron, and
  defaults to early; so an inventory with an elytra or dragon item is endgame, and one with
  both an iron and a diamond item is late unless it also holds an endgame marker.
  The core variant (src/unnamed/part\_000) has no endgame tier: it checks late, then mid,
  then defaults to early, never answers endgame, and answers late for every inventory
  with both an iron and a diamond item.
\<close>

theorem determineGamePhase_order:
  "(map name (inventory st) = map name (inventory st') \<longrightarrow>
      determineGamePhase st = determineGamePhase st')
   \<and> (map name (inventory_b sb) = map name (inventory_b sb') \<longrightarrow>
      determineGamePhase_b sb = determineGamePhase_b sb')
   \<and> determineGamePhase_b sb =
       (if hasItemNamed ''elytra'' (inventory_b sb) \<or> hasItemNamed ''dragon'' (inventory_b sb)
        then endgame
        else if hasItemNamed ''diamond'' (inventory_b sb) \<or> hasItemNamed ''netherite'' (inventory_b sb)
        then late
        else if hasItemNamed ''iron'' (inventory_b sb) then mid else early)
   \<and> (hasItemNamed ''elytra'' (inventory_b sb) \<or> hasItemNamed ''dragon'' (inventory_b sb) \<longrightarrow>
      determineGamePhase_b sb = endgame)
   \<and> (hasItemNamed ''iron'' (inventory_b sb) \<and> hasItemNamed ''diamond'' (inventory_b sb)
      \<and> \<not> hasItemNamed ''elytra'' (inventory_b sb) \<and> \<not> hasItemNamed ''dragon'' (inventory_b sb) \<longrightarrow>
      determineGamePhase_b sb = late)
   \<and> determineGamePhase st =
       (if hasItemNamed ''diamond'' (inventory st) \<or> hasItemNamed ''netherite'' (inventory st)
        then late
        else if hasItemNamed ''iron'' (inventory st) then mid else early)
   \<and> (hasItemNamed ''iron'' (inventory st) \<and> hasItemNamed ''diamond'' (inventory st) \<longrightarrow>
      determineGamePhase st = late)
   \<and> determineGamePhase st \<noteq> endgame"
  using determineGamePhase_names [of st st'] determineGamePhase_b_names [of sb sb']
  by (simp add: determineGamePhase_eq determineGamePhase_b_eq)

theorem determineGamePhase_order_witness:
  "determineGamePhase (BotState_init 0 \<lparr> inventory :=
       [\<lparr> name = Some ''Iron_Pickaxe'', count = 1 \<rparr>, \<lparr> name = Some ''diamond'', count = 2 \<rparr>] \<rparr>) = late
   \<and> determineGamePhase_b (BotState_b_init 0 \<lparr> inventory_b :=
       [\<lparr> name = Some ''iron_ingot'', count = 3 \<rparr>, \<lparr> name = Some ''diamond'', count = 2 \<rparr>] \<rparr>) = late
   \<and> determineGamePhase_b (BotState_b_init 0 \<lparr> inventory_b :=
       [\<lparr> name = None, count = 1 \<rparr>, \<lparr> name = Some ''dragon_egg'', count = 1 \<rparr>] \<rparr>) = endgame
   \<and> determineGamePhase (BotState_init 0 \<lparr> inventory := [\<lparr> name = Some ''iron_ore'', count = 1 \<rparr>] \<rparr>)
     = determineGamePhase (BotState_init 7 \<lparr> inventory := [\<lparr> name = Some ''iron_ore'', count = 64 \<rparr>],
                                              health := 3 \<rparr>)
   \<and> determineGamePhase_b (BotState_b_init 0 \<lparr> inventory_b := [\<lparr> name = Some ''iron_ore'', count = 1 \<rparr>] \<rparr>)
     = determineGamePhase_b (BotState_b_init 7 \<lparr> inventory_b := [\<lparr> name = Some ''iron_ore'', count = 64 \<rparr>],
                                                  health_b := 3 \<rparr>)"
proof -
  let ?st = "BotState_init 0 \<lparr> inventory :=
       [\<lparr> name = Some ''Iron_Pickaxe'', count = 1 \<rparr>, \<lparr> name = Some ''diamond'', count = 2 \<rparr>] \<rparr>"
  let ?sb = "BotState_b_init 0 \<lparr> inventory_b :=
       [\<lparr> name = Some ''iron_ingot'', count = 3 \<rparr>, \<lparr> name = Some ''diamond'', count = 2 \<rparr>] \<rparr>"
  let ?sd = "BotState_b_init 0 \<lparr> inventory_b :=
       [\<lparr> name = None, count = 1 \<rparr>, \<lparr> name = Some ''dragon_egg'', count = 1 \<rparr>] \<rparr>"
  let ?p = "BotState_init 0 \<lparr> inventory := [\<lparr> name = Some ''iron_ore'', count = 1 \<rparr>] \<rparr>"
  let ?q = "BotState_init 7 \<lparr> inventory := [\<lparr> name = Some ''iron_ore'', count = 64 \<rparr>], health := 3 \<rparr>"
  let ?pb = "BotState_b_init 0 \<lparr> inventory_b := [\<lparr> name = Some ''iron_ore'', count = 1 \<rparr>] \<rparr>"
  let ?qb = "BotState_b_init 7 \<lparr> inventory_b := [\<lparr> name = Some ''iron_ore'', count = 64 \<rparr>],
                                 health_b := 3 \<rparr>"
  have a: "hasItemNamed ''iron'' (inventory ?st) \<and> hasItemNamed ''diamond'' (inventory ?st)"
    by code_simp
  have b: "hasItemNamed ''iron'' (inventory_b ?sb) \<and> hasItemNamed ''diamond'' (inventory_b ?sb)
      \<and> \<not> hasItemNamed ''elytra'' (inventory_b ?sb) \<and> \<not> hasItemNamed ''dragon'' (inventory_b ?sb)"
    by code_simp
  have c: "hasItemNamed ''elytra'' (inventory_b ?sd) \<or> hasItemNamed ''dragon'' (inventory_b ?sd)"
    by code_simp
  have d: "map name (inventory ?p) = map name (inventory ?q)"
    "map name (inventory_b ?pb) = map name (inventory_b ?qb)"
    by simp_all
  from a determineGamePhase_order [of ?st ?st ?sb ?sb]
  have 1: "determineGamePhase ?st = late" by blast
  from b determineGamePhase_order [of ?st ?st ?sb ?sb]
  have 2: "determineGamePhase_b ?sb = late" by blast
  from c determineGamePhase_order [of ?st ?st ?sd ?sd]
  have 3: "determineGamePhase_b ?sd = endgame" by blast
  from d determineGamePhase_order [of ?p ?q ?pb ?qb]
  have 4: "determineGamePhase ?p = determineGamePhase ?q"
    "determineGamePhase_b ?pb = determineGamePhase_b ?qb" by blast+
  from 1 2 3 4 show ?thesis by blast
qed

theorem determineGamePhase_counterexample:
  "determineGamePhase (BotState_init 0 \<lparr> inventory := [\<lparr> name = Some ''elytra'', count = 1 \<rparr>] \<rparr>) = early
   \<and> determineGamePhase_b (BotState_b_init 0 \<lparr> inventory_b :=
       [\<lparr> name = Some ''iron_ingot'', count = 3 \<rparr>, \<lparr> name = Some ''diamond'', count = 1 \<rparr>,
        \<lparr> name = Some ''elytra'', count = 1 \<rparr>] \<rparr>) = endgame"
  by code_simp

text \<open>
  C4. The handler of \<open>inventory_content\<close> stores the phase of the inventory that was held
  before the packet, not of the inventory the packet brings: after every such packet
  \<open>gamePhase\<close> is \<open>determineGamePhase()\<close> of the state before it. From the initial state, a
  packet with one diamond leaves \<open>gamePhase\<close> at early while \<open>determineGamePhase()\<close> on the
  resulting inventory is late.
\<close>

theorem inventory_content_phase_stale:
  "gamePhase (on_inventory_content now items st) = determineGamePhase st
   \<and> gamePhase (on_inventory_content 1 (Some [\<lparr> name = Some ''diamond'', count = 1 \<rparr>])
         (BotState_init 0)) = early
   \<and> determineGamePhase (on_inventory_content 1 (Some [\<lparr> name = Some ''diamond'', count = 1 \<rparr>])
         (BotState_init 0)) = late"
proof -
  have "gamePhase (on_inventory_content now items st) = determineGamePhase st"
    by (simp add: on_inventory_content_def update_def no_data_def)
  moreover have "gamePhase (on_inventory_content 1 (Some [\<lparr> name = Some ''diamond'', count = 1 \<rparr>])
         (BotState_init 0)) = early"
    by code_simp
  moreover have "determineGamePhase
       (on_inventory_content 1 (Some [\<lparr> name = Some ''diamond'', count = 1 \<rparr>]) (BotState_init 0)) = late"
    by code_simp
  ultimately show ?thesis by blast
qed

subsection \<open>The action history\<close>

lemma sliceLast_id: "length xs \<le> n \<Longrightarrow> sliceLast n xs = xs"
  by (simp add: sliceLast_def)

lemma length_sliceLast: "length (sliceLast n xs) = min n (length xs)"
  by (auto simp: sliceLast_def)

lemma sliceLast_snoc: "sliceLast n (sliceLast n xs @ [e]) = sliceLast n (xs @ [e])"
proof (cases "length xs \<le> n")
  case True
  then show ?thesis by (simp add: sliceLast_def)
next
  case False
  then have "length xs - n + n = length xs" "Suc (length xs) - n = Suc (length xs - n)"
            "Suc (length xs) - length xs = 1"
    by simp_all
  then show ?thesis
    by (simp add: sliceLast_def)
qed

lemma sliceLast_append:
  "sliceLast n (sliceLast n xs @ ys) = sliceLast n (xs @ ys)"
proof (induction ys rule: rev_induct)
  case Nil
  show ?case by (simp add: sliceLast_def)
next
  case (snoc y ys)
  have "sliceLast n (sliceLast n xs @ ys @ [y])
          = sliceLast n (sliceLast n (sliceLast n xs @ ys) @ [y])"
    using sliceLast_snoc [of n "sliceLast n xs @ ys" y] by simp
  also have "\<dots> = sliceLast n (sliceLast n (xs @ ys) @ [y])"
    by (simp add: snoc.IH)
  also have "\<dots> = sliceLast n ((xs @ ys) @ [y])"
    by (rule sliceLast_snoc)
  finally show ?case by simp
qed

lemma actionHistory_addToHistory:
  "actionHistory (addToHistory ts act res details st)
     = sliceLast 100 (actionHistory st @ [entryOf st (ts, act, res, details)])"
  by (simp add: addToHistory_def entryOf_def Let_def sliceLast_id)

lemma entryOf_addToHistory: "entryOf (addToHistory ts act res details st) = entryOf st"
  by (rule ext) (simp add: entryOf_def addToHistory_def Let_def split: prod.splits)

lemma actionHistory_calls:
  "actionHistory (addToHistory_calls cs st)
     = (if cs = [] then actionHistory st
        else sliceLast 100 (actionHistory st @ map (entryOf st) cs))"
proof (induction cs arbitrary: st)
  case Nil
  show ?case by simp
next
  case (Cons c cs)
  obtain ts act res details where c: "c = (ts, act, res, details)"
    by (cases c) auto
  show ?case
    by (simp add: c Cons.IH actionHistory_addToHistory entryOf_addToHistory sliceLast_append)
qed

lemma actionHistory_b_addToHistory_b:
  "actionHistory_b (addToHistory_b now act res sb)
     = sliceLast 50 (actionHistory_b sb @ [entryOf_b sb (now, act, res)])"
  by (simp add: addToHistory_b_def entryOf_b_def Let_def sliceLast_id)

lemma entryOf_b_addToHistory_b: "entryOf_b (addToHistory_b now act res sb) = entryOf_b sb"
  by (rule ext) (simp add: entryOf_b_def addToHistory_b_def Let_def split: prod.splits)

lemma actionHistory_b_calls:
  "actionHistory_b (addToHistory_b_calls cs sb)
     = (if cs = [] then actionHistory_b sb
        else sliceLast 50 (actionHistory_b sb @ map (entryOf_b sb) cs))"
proof (induction cs arbitrary: sb)
  case Nil
  show ?case by simp
next
  case (Cons c cs)
  obtain now act res where c: "c = (now, act, res)"
    by (cases c) auto
  show ?case
    by (simp add: c Cons.IH actionHistory_b_addToHistory_b entryOf_b_addToHistory_b sliceLast_append)
qed

text \<open>
  C7. Starting from a history within capacity (the constructor's is empty), after any
  sequence of \<open>addToHistory\<close> calls the log holds the last 100 (core variant) or the last
  50 (broad variant) of the entries it had and the entries added, in the order of
  insertion: it never exceeds its capacity and the entries dropped are the oldest ones.
  In particular, one more entry added to a full log drops exactly its first entry.
\<close>

theorem history_bounded_fifo:
  "(length (actionHistory st) \<le> 100 \<longrightarrow>
      actionHistory (addToHistory_calls cs st)
        = drop (length (actionHistory st @ map (entryOf st) cs) - 100)
            (actionHistory st @ map (entryOf st) cs)
      \<and> length (actionHistory (addToHistory_calls cs st)) \<le> 100)
   \<and> (length (actionHistory st) = 100 \<longrightarrow>
      actionHistory (addToHistory ts act res details st)
        = tl (actionHistory st) @ [entryOf st (ts, act, res, details)])
   \<and> (length (actionHistory_b sb) = 50 \<longrightarrow>
      actionHistory_b (addToHistory_b now act' res' sb)
        = tl (actionHistory_b sb) @ [entryOf_b sb (now, act', res')])
   \<and> (length (actionHistory_b sb) \<le> 50 \<longrightarrow>
      actionHistory_b (addToHistory_b_calls cb sb)
        = drop (length (actionHistory_b sb @ map (entryOf_b sb) cb) - 50)
            (actionHistory_b sb @ map (entryOf_b sb) cb)
      \<and> length (actionHistory_b (addToHistory_b_calls cb sb)) \<le> 50)"
proof -
  have core: "actionHistory (addToHistory_calls cs st)
      = sliceLast 100 (actionHistory st @ map (entryOf st) cs)"
    if "length (actionHistory st) \<le> 100"
    using that by (simp add: actionHistory_calls sliceLast_id)
  have broad: "actionHistory_b (addToHistory_b_calls cb sb)
      = sliceLast 50 (actionHistory_b sb @ map (entryOf_b sb) cb)"
    if "length (actionHistory_b sb) \<le> 50"
    using that by (simp add: actionHistory_b_calls sliceLast_id)
  show ?thesis
  proof (intro conjI impI)
    assume h: "length (actionHistory st) \<le> 100"
    show "actionHistory (addToHistory_calls cs st)
        = drop (length (actionHistory st @ map (entryOf st) cs) - 100)
            (actionHistory st @ map (entryOf st) cs)"
      using core [OF h] by (simp add: sliceLast_def)
    show "length (actionHistory (addToHistory_calls cs st)) \<le> 100"
      using core [OF h] by (simp add: length_sliceLast)
  next
    assume h: "length (actionHistory st) = 100"
    then have "actionHistory st \<noteq> []" by auto
    with h show "actionHistory (addToHistory ts act res details st)
        = tl (actionHistory st) @ [entryOf st (ts, act, res, details)]"
      by (simp add: actionHistory_addToHistory sliceLast_def drop_Suc)
  next
    assume h: "length (actionHistory_b sb) = 50"
    then have "actionHistory_b sb \<noteq> []" by auto
    with h show "actionHistory_b (addToHistory_b now act' res' sb)
        = tl (actionHistory_b sb) @ [entryOf_b sb (now, act', res')]"
      by (simp add: actionHistory_b_addToHistory_b sliceLast_def drop_Suc)
  next
    assume h: "length (actionHistory_b sb) \<le> 50"
    show "actionHistory_b (addToHistory_b_calls cb sb)
        = drop (length (actionHistory_b sb @ map (entryOf_b sb) cb) - 50)
            (actionHistory_b sb @ map (entryOf_b sb) cb)"
      using broad [OF h] by (simp add: sliceLast_def)
    show "length (actionHistory_b (addToHistory_b_calls cb sb)) \<le> 50"
      using broad [OF h] by (simp add: length_sliceLast)
  qed
qed

theorem history_bounded_fifo_witness:
  "length (actionHistory (addToHistory_calls
       (replicate 100 (''t0'', ''wait'', Tick, ''Waiting and observing'')
          @ [(''t1'', ''fly'', Cross, ''Unknown command: fly'')])
       (BotState_init 0))) \<le> 100
   \<and> length (actionHistory_b (addToHistory_b_calls
       (replicate 50 (0, ''explore'', ''success'') @ [(1, ''fly'', ''failed'')])
       (BotState_b_init 0))) \<le> 50
   \<and> actionHistory (addToHistory ''t1'' ''fly'' Cross ''Unknown command: fly''
         (BotState_init 0 \<lparr> actionHistory :=
            entryOf (BotState_init 0) (''t0'', ''explore'', Tick, ''first'')
              # replicate 99 (entryOf (BotState_init 0) (''t0'', ''wait'', Tick, ''later'')) \<rparr>))
     = replicate 99 (entryOf (BotState_init 0) (''t0'', ''wait'', Tick, ''later''))
         @ [entryOf (BotState_init 0) (''t1'', ''fly'', Cross, ''Unknown command: fly'')]
   \<and> actionHistory_b (addToHistory_b 1 ''fly'' ''failed''
         (BotState_b_init 0 \<lparr> actionHistory_b :=
            entryOf_b (BotState_b_init 0) (0, ''explore'', ''first'')
              # replicate 49 (entryOf_b (BotState_b_init 0) (0, ''mine'', ''later'')) \<rparr>))
     = replicate 49 (entryOf_b (BotState_b_init 0) (0, ''mine'', ''later''))
         @ [entryOf_b (BotState_b_init 0) (1, ''fly'', ''failed'')]"
proof -
  let ?cs = "replicate 100 (''t0'', ''wait'', Tick, ''Waiting and observing'')
          @ [(''t1'', ''fly'', Cross, ''Unknown command: fly'')]"
  let ?cb = "replicate 50 (0::nat, ''explore'', ''success'') @ [(1, ''fly'', ''failed'')]"
  let ?full = "BotState_init 0 \<lparr> actionHistory :=
            entryOf (BotState_init 0) (''t0'', ''explore'', Tick, ''first'')
              # replicate 99 (entryOf (BotState_init 0) (''t0'', ''wait'', Tick, ''later'')) \<rparr>"
  let ?fullb = "BotState_b_init 0 \<lparr> actionHistory_b :=
            entryOf_b (BotState_b_init 0) (0, ''explore'', ''first'')
              # replicate 49 (entryOf_b (BotState_b_init 0) (0, ''mine'', ''later'')) \<rparr>"
  have e: "length (actionHistory (BotState_init 0)) \<le> 100"
    "length (actionHistory_b (BotState_b_init 0)) \<le> 50"
    by (simp_all add: BotState_init_def BotState_b_init_def)
  have f: "length (actionHistory ?full) = 100" "length (actionHistory_b ?fullb) = 50"
    by simp_all
  have g: "entryOf ?full = entryOf (BotState_init 0)" "entryOf_b ?fullb = entryOf_b (BotState_b_init 0)"
    by (rule ext, simp add: entryOf_def split: prod.splits)
       (rule ext, simp add: entryOf_b_def split: prod.splits)
  from e history_bounded_fifo [where st = "BotState_init 0" and cs = ?cs
      and sb = "BotState_b_init 0" and cb = ?cb]
  have 1: "length (actionHistory (addToHistory_calls ?cs (BotState_init 0))) \<le> 100"
    "length (actionHistory_b (addToHistory_b_calls ?cb (BotState_b_init 0))) \<le> 50"
    by blast+
  from f history_bounded_fifo [where st = ?full and sb = ?fullb and ts = "''t1''" and act = "''fly''"
      and res = Cross and details = "''Unknown command: fly''" and now = 1 and act' = "''fly''"
      and res' = "''failed''"]
  have 2: "actionHistory (addToHistory ''t1'' ''fly'' Cross ''Unknown command: fly'' ?full)
      = tl (actionHistory ?full) @ [entryOf ?full (''t1'', ''fly'', Cross, ''Unknown command: fly'')]"
    "actionHistory_b (addToHistory_b 1 ''fly'' ''failed'' ?fullb)
      = tl (actionHistory_b ?fullb) @ [entryOf_b ?fullb (1, ''fly'', ''failed'')]"
    by blast+
  from 1 2 show ?thesis
    by (simp add: g)
qed

section \<open>Properties of the action executor\<close>

lemma execute_settled_isBusy: "isBusy (snd (execute_settled ts plan (s, ex))) = False"
  by (cases s) (simp_all add: execute_settled_def)

lemma execute_settled_Resolved:
  "execute_settled ts plan (Resolved r, ex) =
     (r, ex \<lparr> state := addToHistory ts (action plan) (if success r then Tick else Cross)
                          (details_of r) ((state ex) \<lparr> consecutiveErrors := 0 \<rparr>),
              isBusy := False \<rparr>)"
  by (simp add: execute_settled_def)

lemma consecutiveErrors_addToHistory:
  "consecutiveErrors (addToHistory ts act res details st) = consecutiveErrors st"
  by (simp add: addToHistory_def Let_def)

lemma execute_not_busy:
  "\<not> isBusy ex \<Longrightarrow>
   execute env plan ex
     = execute_settled (clock env) plan (performAction env (action plan) (ex \<lparr> isBusy := True \<rparr>))"
  by (simp add: execute_def)

lemma execute_resolved:
  assumes "\<not> isBusy ex"
    and "fst (performAction env (action plan) (ex \<lparr> isBusy := True \<rparr>)) = Resolved r"
  shows "fst (execute env plan ex) = r"
    and "consecutiveErrors (state (snd (execute env plan ex))) = 0"
proof -
  obtain ex' where p: "performAction env (action plan) (ex \<lparr> isBusy := True \<rparr>) = (Resolved r, ex')"
    using assms(2) by (cases "performAction env (action plan) (ex \<lparr> isBusy := True \<rparr>)") auto
  show "fst (execute env plan ex) = r"
    by (simp add: execute_not_busy [OF assms(1)] p execute_settled_Resolved)
  show "consecutiveErrors (state (snd (execute env plan ex))) = 0"
    by (simp add: execute_not_busy [OF assms(1)] p execute_settled_Resolved
        consecutiveErrors_addToHistory)
qed

lemma performAction_NoAction:
  "actions env (argsOf a) (commandOf a) = NoAction \<Longrightarrow>
   performAction env a ex = (Resolved (Result False (''Unknown command: '' @ commandOf a)), ex)"
  by (simp add: performAction_def Let_def)

lemma actions_NoAction:
  "command \<notin> set commands \<Longrightarrow> command \<noteq> ''constructor'' \<Longrightarrow> command \<noteq> ''__proto__'' \<Longrightarrow>
   actions env args command = NoAction"
  by (simp add: actions_def commands_def)

text \<open>
  C1. A call of \<open>execute\<close> while the busy flag is set returns \<open>{success: false, message:
  'Busy'}\<close> and leaves the executor as it was: nothing is written to the client, the
  state and its history are untouched and the flag stays set. The result does not depend
  on the environment that drives the handlers, so no handler takes part in it.
\<close>

theorem execute_busy:
  "isBusy ex \<Longrightarrow>
   execute env plan ex = (Result False ''Busy'', ex)
   \<and> client (snd (execute env plan ex)) = client ex
   \<and> state (snd (execute env plan ex)) = state ex
   \<and> isBusy (snd (execute env plan ex))
   \<and> execute env' plan ex = execute env plan ex"
  by (simp add: execute_def)

theorem execute_busy_witness:
  "execute \<lparr> rand_dir = 0, rand_dist = 0, timeoutAfter = None, clock = ''t1'' \<rparr>
     \<lparr> action = ''move north 10'', reasoning = ''Manual command'' \<rparr>
     (ActionExecutor_init 0 \<lparr> isBusy := True \<rparr>)
   = (Result False ''Busy'', ActionExecutor_init 0 \<lparr> isBusy := True \<rparr>)"
  using execute_busy [of "ActionExecutor_init 0 \<lparr> isBusy := True \<rparr>"
      "\<lparr> rand_dir = 0, rand_dist = 0, timeoutAfter = None, clock = ''t1'' \<rparr>"
      "\<lparr> action = ''move north 10'', reasoning = ''Manual command'' \<rparr>"]
  by simp

lemma execute_string_plan_clears_busy:
  "\<not> isBusy ex \<Longrightarrow> \<not> isBusy (snd (execute env plan ex))"
  using execute_settled_isBusy
    [of "clock env" plan "fst (performAction env (action plan) (ex \<lparr> isBusy := True \<rparr>))"
        "snd (performAction env (action plan) (ex \<lparr> isBusy := True \<rparr>))"]
  by (simp add: execute_not_busy)

lemma execute_settled_action:
  "execute_settled ts \<lparr> action = action plan, reasoning = why \<rparr> sx = execute_settled ts plan sx"
  by (simp add: execute_settled_def split: prod.splits Settled.splits)

lemma execute_value_Text:
  "execute_value env (PlanObject (Text (action plan)) why) ex
   = (Inr (fst (execute env plan ex)), snd (execute env plan ex))"
  by (simp add: execute_value_def execute_def execute_settled_action split: prod.splits)

lemma execute_value_NonString:
  "\<not> isBusy ex \<Longrightarrow> \<not> isBusy (snd (execute_value env (PlanObject (NonString shown) why) ex))"
  by (simp add: execute_value_def execute_settled_def)

lemma execute_value_throws:
  "render plan = Inl msg \<Longrightarrow>
   execute_value env plan (ex \<lparr> isBusy := False \<rparr>) = (Inl msg, ex \<lparr> isBusy := True \<rparr>)"
  by (simp add: execute_value_def)

lemma execute_value_busy:
  "execute_value env plan (ex \<lparr> isBusy := True \<rparr>) = (Inr (Result False ''Busy''), ex \<lparr> isBusy := True \<rparr>)"
  by (simp add: execute_value_def)

text \<open>
  C2. The busy flag can be left set. \<open>execute\<close> sets the flag and then evaluates the template
  literal of its \<open>console.log\<close>, before \<open>try\<close>. On the fresh executor, the call that
  \<open>POST /command\<close> makes for the body \<open>{"action": {"toString": 1, "valueOf": 1}}\<close> ends with
  the TypeError of that literal and with the flag set, and so does \<open>execute(null)\<close>; every
  later call, whatever its plan, is answered \<open>Busy\<close> and leaves the flag set.
\<close>

theorem execute_leaves_busy_set:
  "execute_value env (PlanObject Unprintable ''Manual command'') (ActionExecutor_init now)
     = (Inl ''Cannot convert object to primitive value'', ActionExecutor_init now \<lparr> isBusy := True \<rparr>)
   \<and> execute_value env NullPlan (ActionExecutor_init now)
     = (Inl ''Cannot read properties of null'', ActionExecutor_init now \<lparr> isBusy := True \<rparr>)
   \<and> isBusy (snd (execute_value env (PlanObject Unprintable ''Manual command'') (ActionExecutor_init now)))
   \<and> execute_value env2 plan2
         (snd (execute_value env (PlanObject Unprintable ''Manual command'') (ActionExecutor_init now)))
     = (Inr (Result False ''Busy''), ActionExecutor_init now \<lparr> isBusy := True \<rparr>)
   \<and> execute env2 plan
         (snd (execute_value env (PlanObject Unprintable ''Manual command'') (ActionExecutor_init now)))
     = (Result False ''Busy'', ActionExecutor_init now \<lparr> isBusy := True \<rparr>)"
  by (simp add: execute_value_def execute_def ActionExecutor_init_def)

















lemma execute_NoAction:
  assumes nb: "\<not> isBusy ex"
    and na: "actions env (argsOf (action plan)) (commandOf (action plan)) = NoAction"
  shows "fst (execute env plan ex) = Result False (''Unknown command: '' @ commandOf (action plan))"
    and "client (snd (execute env plan ex)) = client ex"
    and "consecutiveErrors (state (snd (execute env plan ex))) = 0"
  by (simp_all add: execute_not_busy [OF nb] performAction_NoAction [OF na] execute_settled_Resolved
      consecutiveErrors_addToHistory)

lemma performAction_b_unknown:
  "commandOf_b b \<notin> set handlers_b \<Longrightarrow> commandOf_b b \<noteq> ''constructor'' \<Longrightarrow>
   commandOf_b b \<noteq> ''__proto__'' \<Longrightarrow>
   performAction_b run b t eb = (Resolved (Result False (''Unknown action: '' @ commandOf_b b)), eb)"
  by (simp add: performAction_b_def Let_def)

lemma execute_b_unknown:
  assumes "commandOf_b (action_b pb) \<notin> set handlers_b"
    and "commandOf_b (action_b pb) \<noteq> ''constructor''"
    and "commandOf_b (action_b pb) \<noteq> ''__proto__''"
  shows "fst (execute_b run now pb eb) = Result False (''Unknown action: '' @ commandOf_b (action_b pb))"
    and "client_b (snd (execute_b run now pb eb)) = client_b eb"
  by (simp_all add: execute_b_def performAction_b_unknown [OF assms])

text \<open>
  The property names that the dispatch object inherits are not refused: \<open>constructor\<close>
  yields the empty object, \<open>__proto__\<close> a rejection.
\<close>

lemma commandOf_inherited:
  "commandOf ''constructor'' = ''constructor''" "commandOf ''__proto__'' = ''__proto__''"
  by code_simp+

lemma performAction_inherited:
  "performAction env ''constructor'' ex = (Resolved PlainObject, ex)"
  "performAction env ''__proto__'' ex = (Rejected ''actionFn is not a function'', ex)"
  by (simp_all add: performAction_def commandOf_inherited actions_def Let_def)

text \<open>
  C8, as amended. When the leading command token is neither one of the handler names nor
  one of the two property names the dispatch object inherits (\<open>constructor\<close>,
  \<open>__proto__\<close>), the core variant answers \<open>{success: false, message: 'Unknown command:
  <token>'}\<close> and the broad variant \<open>{success: false, message: 'Unknown action: <token>'}\<close>;
  in both, \<open>performAction\<close> leaves the executor as it is, \<open>execute\<close> returns that result
  and nothing is written to the session capability, whatever the handlers would do.
\<close>

theorem unknown_command_refused:
  "(commandOf a \<notin> set commands \<and> commandOf a \<noteq> ''constructor'' \<and> commandOf a \<noteq> ''__proto__'' \<longrightarrow>
      performAction env a ex = (Resolved (Result False (''Unknown command: '' @ commandOf a)), ex)
      \<and> (\<not> isBusy ex \<and> action plan = a \<longrightarrow>
           fst (execute env plan ex) = Result False (''Unknown command: '' @ commandOf a)
           \<and> client (snd (execute env plan ex)) = client ex))
   \<and> (commandOf_b b \<notin> set handlers_b \<and> commandOf_b b \<noteq> ''constructor''
        \<and> commandOf_b b \<noteq> ''__proto__'' \<longrightarrow>
      performAction_b run b t eb = (Resolved (Result False (''Unknown action: '' @ commandOf_b b)), eb)
      \<and> (action_b pb = b \<longrightarrow>
           fst (execute_b run now pb eb) = Result False (''Unknown action: '' @ commandOf_b b)
           \<and> client_b (snd (execute_b run now pb eb)) = client_b eb))"
proof -
  have core: "performAction env a ex = (Resolved (Result False (''Unknown command: '' @ commandOf a)), ex)
      \<and> (\<not> isBusy ex \<and> action plan = a \<longrightarrow>
           fst (execute env plan ex) = Result False (''Unknown command: '' @ commandOf a)
           \<and> client (snd (execute env plan ex)) = client ex)"
    if "commandOf a \<notin> set commands \<and> commandOf a \<noteq> ''constructor'' \<and> commandOf a \<noteq> ''__proto__''"
  proof -
    have na: "actions env (argsOf a) (commandOf a) = NoAction"
      using that by (simp add: actions_NoAction)
    show ?thesis
      using execute_NoAction [of ex env plan] na
      by (auto simp: performAction_NoAction)
  qed
  have broad: "performAction_b run b t eb
        = (Resolved (Result False (''Unknown action: '' @ commandOf_b b)), eb)
      \<and> (action_b pb = b \<longrightarrow>
           fst (execute_b run now pb eb) = Result False (''Unknown action: '' @ commandOf_b b)
           \<and> client_b (snd (execute_b run now pb eb)) = client_b eb)"
    if "commandOf_b b \<notin> set handlers_b \<and> commandOf_b b \<noteq> ''constructor''
        \<and> commandOf_b b \<noteq> ''__proto__''"
    using that execute_b_unknown [of pb run now eb]
    by (auto simp: performAction_b_unknown)
  from core broad show ?thesis by blast
qed

lemma commandOf_fly: "commandOf ''  Fly  to the moon'' = ''fly''"
  by code_simp

lemma commandOf_b_fly: "commandOf_b ''fly away'' = ''fly''"
  by code_simp

theorem unknown_command_refused_witness:
  "fst (execute \<lparr> rand_dir = 0, rand_dist = 0, timeoutAfter = None, clock = ''t1'' \<rparr>
       \<lparr> action = ''  Fly  to the moon'', reasoning = ''Manual command'' \<rparr> (ActionExecutor_init 0))
     = Result False ''Unknown command: fly''
   \<and> client (snd (execute \<lparr> rand_dir = 0, rand_dist = 0, timeoutAfter = None, clock = ''t1'' \<rparr>
       \<lparr> action = ''  Fly  to the moon'', reasoning = ''Manual command'' \<rparr> (ActionExecutor_init 0)))
     = []
   \<and> performAction_b (\<lambda>c args t e. (Resolved (Result True ''ran''), e \<lparr> client_b := [()] \<rparr>))
       ''fly away'' None (ActionExecutor_b_init 0)
     = (Resolved (Result False ''Unknown action: fly''), ActionExecutor_b_init 0)
   \<and> client_b (snd (execute_b (\<lambda>c args t e. (Resolved (Result True ''ran''), e \<lparr> client_b := [()] \<rparr>)) 1
       \<lparr> action_b = ''fly away'', reasoning_b = ''Manual command'', priority_b = Some ''high'',
         estimatedTime_b = Some 30 \<rparr>
       (ActionExecutor_b_init 0))) = []"
proof -
  let ?pb = "\<lparr> action_b = ''fly away'', reasoning_b = ''Manual command'', priority_b = Some ''high'',
         estimatedTime_b = Some 30 \<rparr>"
  have 1: "commandOf ''  Fly  to the moon'' \<notin> set commands
      \<and> commandOf ''  Fly  to the moon'' \<noteq> ''constructor''
      \<and> commandOf ''  Fly  to the moon'' \<noteq> ''__proto__''"
    by (simp add: commandOf_fly commands_def)
  have 2: "commandOf_b ''fly away'' \<notin> set handlers_b \<and> commandOf_b ''fly away'' \<noteq> ''constructor''
      \<and> commandOf_b ''fly away'' \<noteq> ''__proto__''"
    by (simp add: commandOf_b_fly handlers_b_def)
  have 3: "\<not> isBusy (ActionExecutor_init 0)" "client (ActionExecutor_init 0) = []"
    "client_b (ActionExecutor_b_init 0 :: unit ActionExecutor_b) = []"
    "action_b ?pb = ''fly away''"
    by (simp_all add: ActionExecutor_init_def ActionExecutor_b_init_def)
  from 1 2 3 unknown_command_refused
    [where a = "''  Fly  to the moon''" and b = "''fly away''"
       and plan = "\<lparr> action = ''  Fly  to the moon'', reasoning = ''Manual command'' \<rparr>"
       and ex = "ActionExecutor_init 0"
       and env = "\<lparr> rand_dir = 0, rand_dist = 0, timeoutAfter = None, clock = ''t1'' \<rparr>"
       and eb = "ActionExecutor_b_init 0" and pb = ?pb and now = 1
       and run = "\<lambda>c args t e. (Resolved (Result True ''ran''), e \<lparr> client_b := [()] \<rparr>)"
       and t = None]
  show ?thesis
    by (simp add: commandOf_fly commandOf_b_fly)
qed

theorem unknown_command_counterexample:
  "fst (execute_b (\<lambda>c args t e. (Resolved (Result True ''ran''), e \<lparr> client_b := [()] \<rparr>)) 1
       \<lparr> action_b = ''fly away'', reasoning_b = ''Manual command'', priority_b = Some ''high'',
         estimatedTime_b = Some 30 \<rparr>
       (ActionExecutor_b_init 0))
     = Result False ''Unknown action: fly''"
  by code_simp

text \<open>
  C10, as amended. A call of \<open>execute\<close> that finds the executor free and whose
  \<open>performAction\<close> returns a value (no exception, no timeout) returns that value and
  leaves \<open>consecutiveErrors\<close> at 0, also when the value reports a failure: an unknown
  command or an invalid direction. A call that is refused as busy leaves the counter as
  it is.
\<close>

theorem execute_resets_consecutiveErrors:
  "consecutiveErrors (state (snd (execute_settled ts plan (Resolved r, ex')))) = 0
   \<and> (\<not> isBusy ex \<and> fst (performAction env (action plan) (ex \<lparr> isBusy := True \<rparr>)) = Resolved r \<longrightarrow>
        fst (execute env plan ex) = r
        \<and> consecutiveErrors (state (snd (execute env plan ex))) = 0)
   \<and> (\<not> isBusy ex \<and> commandOf (action plan) \<notin> set commands
        \<and> commandOf (action plan) \<noteq> ''constructor'' \<and> commandOf (action plan) \<noteq> ''__proto__'' \<longrightarrow>
        \<not> success (fst (execute env plan ex))
        \<and> consecutiveErrors (state (snd (execute env plan ex))) = 0)
   \<and> (\<not> isBusy ex \<and> commandOf (action plan) = ''move''
        \<and> directions (arg (argsOf (action plan)) 0) = NoDir \<longrightarrow>
        \<not> success (fst (execute env plan ex))
        \<and> consecutiveErrors (state (snd (execute env plan ex))) = 0)
   \<and> (isBusy ex \<longrightarrow>
        consecutiveErrors (state (snd (execute env plan ex))) = consecutiveErrors (state ex))"
proof -
  have A: "consecutiveErrors (state (snd (execute_settled ts plan (Resolved r, ex')))) = 0"
    by (simp add: execute_settled_Resolved consecutiveErrors_addToHistory)
  have B: "fst (execute env plan ex) = r \<and> consecutiveErrors (state (snd (execute env plan ex))) = 0"
    if "\<not> isBusy ex \<and> fst (performAction env (action plan) (ex \<lparr> isBusy := True \<rparr>)) = Resolved r"
    using that execute_resolved [of ex env plan r] by blast
  have C: "\<not> success (fst (execute env plan ex))
      \<and> consecutiveErrors (state (snd (execute env plan ex))) = 0"
    if "\<not> isBusy ex \<and> commandOf (action plan) \<notin> set commands
        \<and> commandOf (action plan) \<noteq> ''constructor'' \<and> commandOf (action plan) \<noteq> ''__proto__''"
  proof -
    have "actions env (argsOf (action plan)) (commandOf (action plan)) = NoAction"
      using that by (simp add: actions_NoAction)
    with that show ?thesis
      by (simp add: execute_NoAction)
  qed
  have D: "\<not> success (fst (execute env plan ex))
      \<and> consecutiveErrors (state (snd (execute env plan ex))) = 0"
    if h: "\<not> isBusy ex \<and> commandOf (action plan) = ''move''
        \<and> directions (arg (argsOf (action plan)) 0) = NoDir"
  proof -
    have "performAction env (action plan) (ex \<lparr> isBusy := True \<rparr>)
        = (Resolved (Result False (''Invalid direction: '' @ show_opt (arg (argsOf (action plan)) 0))),
           ex \<lparr> isBusy := True \<rparr>)"
      using h by (simp add: performAction_def actions_def move_def race_def Let_def
          split: option.splits)
    then have "fst (performAction env (action plan) (ex \<lparr> isBusy := True \<rparr>))
        = Resolved (Result False (''Invalid direction: '' @ show_opt (arg (argsOf (action plan)) 0)))"
      by simp
    from execute_resolved [OF _ this] h show ?thesis
      by simp
  qed
  have E: "consecutiveErrors (state (snd (execute env plan ex))) = consecutiveErrors (state ex)"
    if "isBusy ex"
    using that by (simp add: execute_def)
  from A B C D E show ?thesis by blast
qed


theorem execute_resets_consecutiveErrors_witness:
  "consecutiveErrors (state (snd (execute
       \<lparr> rand_dir = 0, rand_dist = 0, timeoutAfter = None, clock = ''t1'' \<rparr>
       \<lparr> action = ''move up 3'', reasoning = ''Manual command'' \<rparr>
       (ActionExecutor_init 0 \<lparr> state := BotState_init 0 \<lparr> consecutiveErrors := 3 \<rparr> \<rparr>)))) = 0
   \<and> \<not> success (fst (execute
       \<lparr> rand_dir = 0, rand_dist = 0, timeoutAfter = None, clock = ''t1'' \<rparr>
       \<lparr> action = ''move up 3'', reasoning = ''Manual command'' \<rparr>
       (ActionExecutor_init 0 \<lparr> state := BotState_init 0 \<lparr> consecutiveErrors := 3 \<rparr> \<rparr>)))
   \<and> consecutiveErrors (state (snd (execute
       \<lparr> rand_dir = 0, rand_dist = 0, timeoutAfter = None, clock = ''t1'' \<rparr>
       \<lparr> action = ''  Fly  to the moon'', reasoning = ''Manual command'' \<rparr>
       (ActionExecutor_init 0 \<lparr> state := BotState_init 0 \<lparr> consecutiveErrors := 3 \<rparr> \<rparr>)))) = 0
   \<and> consecutiveErrors (state (snd (execute
       \<lparr> rand_dir = 0, rand_dist = 0, timeoutAfter = None, clock = ''t1'' \<rparr>
       \<lparr> action = ''wait'', reasoning = ''Error recovery'' \<rparr>
       (ActionExecutor_init 0 \<lparr> state := BotState_init 0 \<lparr> consecutiveErrors := 3 \<rparr> \<rparr>)))) = 0
   \<and> consecutiveErrors (state (snd (execute
       \<lparr> rand_dir = 0, rand_dist = 0, timeoutAfter = None, clock = ''t1'' \<rparr>
       \<lparr> action = ''wait'', reasoning = ''Error recovery'' \<rparr>
       (ActionExecutor_init 0 \<lparr> state := BotState_init 0 \<lparr> consecutiveErrors := 3 \<rparr>,
                                 isBusy := True \<rparr>))))
     = consecutiveErrors (BotState_init 0 \<lparr> consecutiveErrors := 3 \<rparr>)"
proof -
  let ?env = "\<lparr> rand_dir = 0, rand_dist = 0, timeoutAfter = None, clock = ''t1'' \<rparr>"
  let ?ex = "ActionExecutor_init 0 \<lparr> state := BotState_init 0 \<lparr> consecutiveErrors := 3 \<rparr> \<rparr>"
  let ?busy = "ActionExecutor_init 0 \<lparr> state := BotState_init 0 \<lparr> consecutiveErrors := 3 \<rparr>,
                                 isBusy := True \<rparr>"
  let ?up = "\<lparr> action = ''move up 3'', reasoning = ''Manual command'' \<rparr>"
  let ?fly = "\<lparr> action = ''  Fly  to the moon'', reasoning = ''Manual command'' \<rparr>"
  let ?wait = "\<lparr> action = ''wait'', reasoning = ''Error recovery'' \<rparr>"
  have c: "commandOf ''move up 3'' = ''move''"
    by code_simp
  have a: "argsOf ''move up 3'' = [''up'', ''3'']"
    by code_simp
  have nb: "\<not> isBusy ?ex" "isBusy ?busy" "state ?busy = BotState_init 0 \<lparr> consecutiveErrors := 3 \<rparr>"
    by (simp_all add: ActionExecutor_init_def)
  have h: "\<not> isBusy ?ex \<and> commandOf (action ?up) = ''move''
      \<and> directions (arg (argsOf (action ?up)) 0) = NoDir"
    by (simp add: c a arg_def directions_def nb)
  have f: "\<not> isBusy ?ex \<and> commandOf (action ?fly) \<notin> set commands
      \<and> commandOf (action ?fly) \<noteq> ''constructor'' \<and> commandOf (action ?fly) \<noteq> ''__proto__''"
    by (simp add: commandOf_fly commands_def nb)
  have w: "fst (performAction ?env ''wait'' (?ex \<lparr> isBusy := True \<rparr>))
      = Resolved (Result True ''Waiting and observing'')"
    by code_simp
  from h execute_resets_consecutiveErrors [where ex = ?ex and plan = ?up and env = ?env]
  have 1: "consecutiveErrors (state (snd (execute ?env ?up ?ex))) = 0
      \<and> \<not> success (fst (execute ?env ?up ?ex))"
    by blast
  from f execute_resets_consecutiveErrors [where ex = ?ex and plan = ?fly and env = ?env]
  have 2: "consecutiveErrors (state (snd (execute ?env ?fly ?ex))) = 0"
    by blast
  from nb w execute_resets_consecutiveErrors
    [where ex = ?ex and plan = ?wait and env = ?env and r = "Result True ''Waiting and observing''"]
  have 3: "consecutiveErrors (state (snd (execute ?env ?wait ?ex))) = 0"
    by simp
  from nb execute_resets_consecutiveErrors [where ex = ?busy and plan = ?wait and env = ?env]
  have 4: "consecutiveErrors (state (snd (execute ?env ?wait ?busy)))
      = consecutiveErrors (BotState_init 0 \<lparr> consecutiveErrors := 3 \<rparr>)"
    by simp
  from 1 2 3 4 show ?thesis by blast
qed

theorem execute_resets_consecutiveErrors_counterexample:
  "consecutiveErrors (state (snd (execute
       \<lparr> rand_dir = 0, rand_dist = 0, timeoutAfter = None, clock = ''t1'' \<rparr>
       \<lparr> action = ''wait'', reasoning = ''Error recovery'' \<rparr>
       (ActionExecutor_init 0 \<lparr> state := BotState_init 0 \<lparr> consecutiveErrors := 3 \<rparr>,
                                 isBusy := True \<rparr>)))) = 3
   \<and> fst (execute
       \<lparr> rand_dir = 0, rand_dist = 0, timeoutAfter = None, clock = ''t1'' \<rparr>
       \<lparr> action = ''wait'', reasoning = ''Error recovery'' \<rparr>
       (ActionExecutor_init 0 \<lparr> state := BotState_init 0 \<lparr> consecutiveErrors := 3 \<rparr>,
                                 isBusy := True \<rparr>)) = Result False ''Busy''"
  by (simp add: execute_def ActionExecutor_init_def)

section \<open>Properties of the decision engine\<close>

lemma think_Inr:
  "think (Inr response) (ai, st)
     = (parseAction response,
        ai \<lparr> conversationHistory :=
               (if length (conversationHistory ai @ [(response, parseAction response)]) > 20
                then sliceLast 20 (conversationHistory ai @ [(response, parseAction response)])
                else conversationHistory ai @ [(response, parseAction response)]) \<rparr>,
        st)"
  by (simp add: think_def Let_def)

lemma think_Inl:
  "think (Inl err) (ai, st)
     = (if consecutiveErrors st + 1 > maxConsecutiveErrors
        then safeFallback (st \<lparr> consecutiveErrors := consecutiveErrors st + 1 \<rparr>)
        else \<lparr> action = ''wait'', reasoning = ''Error recovery'' \<rparr>,
        ai, st \<lparr> consecutiveErrors := consecutiveErrors st + 1 \<rparr>)"
  by (simp add: think_def Let_def)

text \<open>
  C3, as amended. \<open>think\<close> calls the reasoning capability on every cycle and acts on what
  the call settles to. When the call returns a text, the plan is the parsed text and the
  state, with its error counter, is left as it is, however large the counter. When the
  call fails, the counter goes up by one; if it then exceeds the ceiling 5 the plan is
  the fallback keyed on health and phase (health below 10: wait; early phase: mine wood;
  otherwise: explore), else the plan is the holding action wait. The counter is set to 0
  by the executor, when an action it runs returns a value.
\<close>

theorem think_error_budget:
  "fst (think (Inr response) (ai, st)) = parseAction response
   \<and> snd (snd (think (Inr response) (ai, st))) = st
   \<and> consecutiveErrors (snd (snd (think (Inl err) (ai, st)))) = consecutiveErrors st + 1
   \<and> (5 \<le> consecutiveErrors st \<longrightarrow>
        fst (think (Inl err) (ai, st))
          = (if health st < 10 then \<lparr> action = ''wait'', reasoning = ''Low health, being cautious'' \<rparr>
             else if gamePhase st = early
             then \<lparr> action = ''mine wood'', reasoning = ''Need basic resources'' \<rparr>
             else \<lparr> action = ''explore'', reasoning = ''Safe exploration'' \<rparr>))
   \<and> (consecutiveErrors st < 5 \<longrightarrow>
        fst (think (Inl err) (ai, st)) = \<lparr> action = ''wait'', reasoning = ''Error recovery'' \<rparr>)
   \<and> (\<not> isBusy ex \<and> fst (performAction env (action plan) (ex \<lparr> isBusy := True \<rparr>)) = Resolved r \<longrightarrow>
        consecutiveErrors (state (snd (execute env plan ex))) = 0)"
  using execute_resolved(2) [of ex env plan r]
  by (simp add: think_Inr think_Inl maxConsecutiveErrors_def safeFallback_def)

theorem think_error_budget_witness:
  "fst (think (Inl ''HTTP 503: unavailable'')
          (\<lparr> conversationHistory = [] \<rparr>, BotState_init 0 \<lparr> consecutiveErrors := 5 \<rparr>))
     = \<lparr> action = ''mine wood'', reasoning = ''Need basic resources'' \<rparr>
   \<and> fst (think (Inl ''HTTP 503: unavailable'')
          (\<lparr> conversationHistory = [] \<rparr>, BotState_init 0 \<lparr> consecutiveErrors := 4 \<rparr>))
     = \<lparr> action = ''wait'', reasoning = ''Error recovery'' \<rparr>
   \<and> consecutiveErrors (state (snd (execute
       \<lparr> rand_dir = 0, rand_dist = 0, timeoutAfter = None, clock = ''t1'' \<rparr>
       \<lparr> action = ''wait'', reasoning = ''Error recovery'' \<rparr>
       (ActionExecutor_init 0 \<lparr> state := BotState_init 0 \<lparr> consecutiveErrors := 6 \<rparr> \<rparr>)))) = 0"
proof -
  let ?env = "\<lparr> rand_dir = 0, rand_dist = 0, timeoutAfter = None, clock = ''t1'' \<rparr>"
  let ?ex = "ActionExecutor_init 0 \<lparr> state := BotState_init 0 \<lparr> consecutiveErrors := 6 \<rparr> \<rparr>"
  let ?wait = "\<lparr> action = ''wait'', reasoning = ''Error recovery'' \<rparr>"
  have a: "5 \<le> consecutiveErrors (BotState_init 0 \<lparr> consecutiveErrors := 5 \<rparr>)"
    and b: "consecutiveErrors (BotState_init 0 \<lparr> consecutiveErrors := 4 \<rparr>) < 5"
    and c: "\<not> health (BotState_init 0 \<lparr> consecutiveErrors := 5 \<rparr>) < 10"
           "gamePhase (BotState_init 0 \<lparr> consecutiveErrors := 5 \<rparr>) = early"
    and d: "\<not> isBusy ?ex"
    by (simp_all add: BotState_init_def ActionExecutor_init_def)
  have w: "fst (performAction ?env (action ?wait) (?ex \<lparr> isBusy := True \<rparr>))
      = Resolved (Result True ''Waiting and observing'')"
    by code_simp
  from a c think_error_budget
    [where st = "BotState_init 0 \<lparr> consecutiveErrors := 5 \<rparr>" and ai = "\<lparr> conversationHistory = [] \<rparr>"
       and err = "''HTTP 503: unavailable''"]
  have 1: "fst (think (Inl ''HTTP 503: unavailable'')
          (\<lparr> conversationHistory = [] \<rparr>, BotState_init 0 \<lparr> consecutiveErrors := 5 \<rparr>))
     = \<lparr> action = ''mine wood'', reasoning = ''Need basic resources'' \<rparr>"
    by simp
  from b think_error_budget
    [where st = "BotState_init 0 \<lparr> consecutiveErrors := 4 \<rparr>" and ai = "\<lparr> conversationHistory = [] \<rparr>"
       and err = "''HTTP 503: unavailable''"]
  have 2: "fst (think (Inl ''HTTP 503: unavailable'')
          (\<lparr> conversationHistory = [] \<rparr>, BotState_init 0 \<lparr> consecutiveErrors := 4 \<rparr>))
     = \<lparr> action = ''wait'', reasoning = ''Error recovery'' \<rparr>"
    by simp
  from d w think_error_budget
    [where ex = ?ex and env = ?env and plan = ?wait and r = "Result True ''Waiting and observing''"]
  have 3: "consecutiveErrors (state (snd (execute ?env ?wait ?ex))) = 0"
    by blast
  from 1 2 3 show ?thesis by blast
qed

theorem think_error_budget_counterexample:
  "fst (think (Inr ''ACTION: wait'')
          (\<lparr> conversationHistory = [] \<rparr>, BotState_init 0 \<lparr> consecutiveErrors := 6 \<rparr>))
     = \<lparr> action = ''wait'', reasoning = [] \<rparr>
   \<and> safeFallback (BotState_init 0 \<lparr> consecutiveErrors := 6 \<rparr>)
     = \<lparr> action = ''mine wood'', reasoning = ''Need basic resources'' \<rparr>
   \<and> consecutiveErrors (snd (snd (think (Inr ''ACTION: wait'')
          (\<lparr> conversationHistory = [] \<rparr>, BotState_init 0 \<lparr> consecutiveErrors := 6 \<rparr>)))) = 6"
  by code_simp

subsection \<open>The reply parser\<close>




















lemma length_toLowerCase: "length (toLowerCase s) = length s"
  by (simp add: toLowerCase_def)

























end
